theory Spec2Isabelle
  imports Complex_Main
begin

section \<open>Values of the Python program\<close>

text \<open>
  The program of \<^verbatim>\<open>Weather.py\<close> handles the values that \<^verbatim>\<open>response.json()\<close>
  produces: \<^verbatim>\<open>None\<close>, booleans, unbounded integers, floats, strings, lists and
  dictionaries with string keys. A finite float is represented by the real number it
  denotes; the program never does arithmetic on the floats of an observation, it only
  tests them for truth and hands them to \<^verbatim>\<open>datetime.utcfromtimestamp\<close>.
  A dictionary is an association list read with \<open>map_of\<close>.
\<close>

datatype pyfloat = Finite real | PosInf | NegInf | NaN

datatype pyvalue =
    PNone
  | PBool bool
  | PInt int
  | PFloat pyfloat
  | PStr string
  | PList "pyvalue list"
  | PDict "(string \<times> pyvalue) list"

text \<open>
  The exception classes that the operations of the program can raise. The last four are
  classes of the \<^verbatim>\<open>requests\<close> library; \<open>RequestException\<close> is the base class
  of the other three.
\<close>

datatype exception =
    IndexError | KeyError | TypeError | AttributeError | ValueError | OverflowError | OSError
  | RequestException | Timeout | ConnectionError | RequestsJSONDecodeError

text \<open>\<^verbatim>\<open>isinstance(e, requests.RequestException)\<close>\<close>

fun is_RequestException :: "exception \<Rightarrow> bool" where
  "is_RequestException RequestException = True"
| "is_RequestException Timeout = True"
| "is_RequestException ConnectionError = True"
| "is_RequestException RequestsJSONDecodeError = True"
| "is_RequestException _ = False"

text \<open>Sequencing of two computations that may raise: the first exception wins.\<close>

definition and_then :: "exception + 'a \<Rightarrow> ('a \<Rightarrow> exception + 'b) \<Rightarrow> exception + 'b" where
  "and_then m f = (case m of Inl e \<Rightarrow> Inl e | Inr v \<Rightarrow> f v)"

text \<open>Python's truth value of an object, as \<^verbatim>\<open>if x\<close> and \<^verbatim>\<open>x and y\<close> test it.\<close>

fun truthy :: "pyvalue \<Rightarrow> bool" where
  "truthy PNone = False"
| "truthy (PBool b) = b"
| "truthy (PInt i) = (i \<noteq> 0)"
| "truthy (PFloat f) = (f \<noteq> Finite 0)"
| "truthy (PStr s) = (s \<noteq> [])"
| "truthy (PList xs) = (xs \<noteq> [])"
| "truthy (PDict kvs) = (kvs \<noteq> [])"

text \<open>
  \<^verbatim>\<open>xs[i]\<close> on a list: a negative index counts from the end, an index outside
  \<open>-len(xs) \<le> i < len(xs)\<close> raises \<open>IndexError\<close>.
\<close>

definition list_getitem :: "'a list \<Rightarrow> int \<Rightarrow> exception + 'a" where
  "list_getitem xs i =
     (let n = int (length xs); j = (if i < 0 then i + n else i)
      in if 0 \<le> j \<and> j < n then Inr (xs ! nat j) else Inl IndexError)"

text \<open>
  \<^verbatim>\<open>obj.get(key, default)\<close>: only a dictionary has the method; every other value
  raises \<open>AttributeError\<close>.
\<close>

definition py_get :: "pyvalue \<Rightarrow> string \<Rightarrow> pyvalue \<Rightarrow> exception + pyvalue" where
  "py_get obj key dflt =
     (case obj of
        PDict kvs \<Rightarrow> Inr (case map_of kvs key of Some v \<Rightarrow> v | None \<Rightarrow> dflt)
      | _ \<Rightarrow> Inl AttributeError)"

text \<open>
  \<^verbatim>\<open>obj[0]\<close>: the first element of a list, the first character of a string (as a
  string), \<open>KeyError\<close> on a dictionary (its keys are strings, never \<open>0\<close>),
  \<open>TypeError\<close> on a value that is not subscriptable.
\<close>

definition py_getitem0 :: "pyvalue \<Rightarrow> exception + pyvalue" where
  "py_getitem0 obj =
     (case obj of
        PList xs \<Rightarrow> list_getitem xs 0
      | PStr s \<Rightarrow> (case s of [] \<Rightarrow> Inl IndexError | c # _ \<Rightarrow> Inr (PStr [c]))
      | PDict kvs \<Rightarrow> Inl KeyError
      | _ \<Rightarrow> Inl TypeError)"

section \<open>Calendar dates: \<^verbatim>\<open>datetime.utcfromtimestamp\<close> and \<^verbatim>\<open>strftime\<close>\<close>



definition DAYS_IN_MONTH :: "int list" where
  "DAYS_IN_MONTH = [31, 28, 31, 30, 31, 30, 31, 31, 30, 31, 30, 31]"

definition DAYS_BEFORE_MONTH :: "int list" where
  "DAYS_BEFORE_MONTH = [0, 31, 59, 90, 120, 151, 181, 212, 243, 273, 304, 334]"




text \<open>
  \<^verbatim>\<open>_ord2ymd\<close>: the calendar date of an ordinal, by 400-year, 100-year, 4-year
  and 1-year cycles, then an estimate of the month that is too large by at most one.
\<close>

definition ord2ymd :: "int \<Rightarrow> int \<times> int \<times> int" where
  "ord2ymd n0 =
     (let n = n0 - 1;
          n400 = n div 146097; n = n mod 146097;
          year = n400 * 400 + 1;
          n100 = n div 36524; n = n mod 36524;
          n4 = n div 1461; n = n mod 1461;
          n1 = n div 365; n = n mod 365;
          year = year + n100 * 100 + n4 * 4 + n1
      in if n1 = 4 \<or> n100 = 4 then (year - 1, 12, 31)
         else
           (let leapyear = (n1 = 3 \<and> (n100 = 3 \<or> n4 \<noteq> 24));
                month = (n + 50) div 32;
                preceding = DAYS_BEFORE_MONTH ! nat (month - 1)
                              + (if month > 2 \<and> leapyear then 1 else 0)
            in if preceding > n
               then (let month = month - 1;
                         preceding = preceding - (DAYS_IN_MONTH ! nat (month - 1)
                                        + (if month = 2 \<and> leapyear then 1 else 0))
                     in (year, month, n - preceding + 1))
               else (year, month, n - preceding + 1)))"

record datetime =
  year :: int
  month :: int
  day :: int
  hour :: int
  minute :: int
  second :: int

text \<open>
  The whole seconds of a float timestamp: \<^verbatim>\<open>utcfromtimestamp\<close> rounds the fraction to
  microseconds, half to even, and carries into the seconds; \<^verbatim>\<open>strftime\<close> below
  prints no microseconds.
\<close>

definition round_half_even :: "real \<Rightarrow> int" where
  "round_half_even x =
     (let f = \<lfloor>x\<rfloor>; d = x - of_int f
      in if d < 1 / 2 then f else if d > 1 / 2 then f + 1 else if even f then f else f + 1)"

definition float_seconds :: "real \<Rightarrow> int" where
  "float_seconds x =
     (let t = (if x < 0 then \<lceil>x\<rceil> else \<lfloor>x\<rfloor>);
          us = round_half_even ((x - of_int t) * 1000000)
      in if us \<ge> 1000000 then t + 1 else if us < 0 then t - 1 else t)"

text \<open>
  The first and the last second that \<^verbatim>\<open>datetime\<close> represents:
  0001-01-01 00:00:00 and 9999-12-31 23:59:59.
\<close>

definition MIN_TIMESTAMP :: int where
  "MIN_TIMESTAMP = - 62135596800"

definition MAX_TIMESTAMP :: int where
  "MAX_TIMESTAMP = 253402300799"

text \<open>
  The date and time of a whole number of seconds, as CPython 3.11 on Linux computes it:
  a number that does not fit the 64-bit \<^verbatim>\<open>time_t\<close> raises \<open>OverflowError\<close>, one
  whose year does not fit the C library's \<^verbatim>\<open>gmtime\<close> raises \<open>OSError\<close>, one outside
  the years 1 to 9999 raises \<open>ValueError\<close>.
\<close>

definition from_seconds :: "int \<Rightarrow> exception + datetime" where
  "from_seconds t =
     (if t < - (2 ^ 63) \<or> 2 ^ 63 \<le> t then Inl OverflowError
      else if t < - 67768040609740800 \<or> 67768036191676799 < t then Inl OSError
      else if t < MIN_TIMESTAMP \<or> MAX_TIMESTAMP < t then Inl ValueError
      else
        (let (y, m, d) = ord2ymd (t div 86400 + 719163); r = t mod 86400
         in Inr \<lparr>year = y, month = m, day = d,
                 hour = r div 3600, minute = r mod 3600 div 60, second = r mod 60\<rparr>))"

text \<open>
  \<^verbatim>\<open>datetime.utcfromtimestamp(x)\<close>. A bool is an int in Python. A value that is not
  a number raises \<open>TypeError\<close>, NaN raises \<open>ValueError\<close>, an infinity raises
  \<open>OverflowError\<close>. Platforms whose \<^verbatim>\<open>gmtime\<close> refuses negative timestamps are not
  modelled.
\<close>

definition utcfromtimestamp :: "pyvalue \<Rightarrow> exception + datetime" where
  "utcfromtimestamp x =
     (case x of
        PInt t \<Rightarrow> from_seconds t
      | PBool b \<Rightarrow> from_seconds (if b then 1 else 0)
      | PFloat f \<Rightarrow>
          (case f of
             Finite r \<Rightarrow> from_seconds (float_seconds r)
           | NaN \<Rightarrow> Inl ValueError
           | _ \<Rightarrow> Inl OverflowError)
      | _ \<Rightarrow> Inl TypeError)"

text \<open>
  Decimal digits, zero-padded to two and to four places, and the digits of a year from 1
  to 9999 without padding.
\<close>

definition digit :: "int \<Rightarrow> char" where
  "digit d = ''0123456789'' ! nat (d mod 10)"

definition pad2 :: "int \<Rightarrow> string" where
  "pad2 n = [digit (n div 10), digit n]"

definition pad4 :: "int \<Rightarrow> string" where
  "pad4 n = [digit (n div 1000), digit (n div 100), digit (n div 10), digit n]"

definition year_digits :: "int \<Rightarrow> string" where
  "year_digits y =
     (if y < 10 then [digit y]
      else if y < 100 then [digit (y div 10), digit y]
      else if y < 1000 then [digit (y div 100), digit (y div 10), digit y]
      else pad4 y)"

text \<open>
  \<^verbatim>\<open>dt.strftime("%Y-%m-%d %H:%M:%S")\<close> as CPython 3.11 gives it with the C library of
  Linux (glibc): \<^verbatim>\<open>%Y\<close> is the year without padding, so a year below 1000 has fewer
  than four digits; the other fields have two digits.
\<close>

definition strftime :: "datetime \<Rightarrow> string" where
  "strftime dt =
     year_digits (year dt) @ ''-'' @ pad2 (month dt) @ ''-'' @ pad2 (day dt) @ '' ''
       @ pad2 (hour dt) @ '':'' @ pad2 (minute dt) @ '':'' @ pad2 (second dt)"

section \<open>The state of a run\<close>

text \<open>
  Each \<^verbatim>\<open>print\<close> of the program is a message with the values it interpolates:
  \<^item> \<open>CityNotFound city\<close>: \<^verbatim>\<open>City '{city}' not found. Skipping.\<close>
  \<^item> \<open>InvalidApiKey\<close>: \<^verbatim>\<open>Invalid API key. Please check your .env file.\<close>
  \<^item> \<open>UnexpectedStatus code city text\<close>: \<^verbatim>\<open>Unexpected status code ... Response: ...\<close>
  \<^item> \<open>ThrewException e\<close>: \<^verbatim>\<open>Threw an Execption\<close> followed by \<^verbatim>\<open>str(e)\<close>
  \<^item> \<open>FailedToFetch city retries\<close>: \<^verbatim>\<open>Failed to fetch data for city ... after ... attempts.\<close>
  \<^item> \<open>MissingEssentialData idx\<close>: \<^verbatim>\<open>Missing essential data for index ...\<close>
  \<^item> \<open>CouldntExtract e\<close>: \<^verbatim>\<open>Couldn't extract the required fields -\<close> followed by \<^verbatim>\<open>str(e)\<close>
  \<^item> \<open>ApiKeyNotFound\<close>: \<^verbatim>\<open>API key not found, please add api key in your .env file\<close>
\<close>

datatype message =
    CityNotFound string
  | InvalidApiKey
  | UnexpectedStatus int string string
  | ThrewException exception
  | FailedToFetch string int
  | MissingEssentialData int
  | CouldntExtract exception
  | ApiKeyNotFound

text \<open>The arguments of \<^verbatim>\<open>requests.get(url, params=params, timeout=5)\<close>.\<close>

record request =
  url :: string
  params :: "(string \<times> string) list"
  timeout :: int

text \<open>
  What the program does to the world, in the order it does it: an HTTP request sent, a
  call of \<^verbatim>\<open>time.sleep\<close>, a line printed.
\<close>

datatype event = Requested request | Slept real | Printed message

text \<open>
  The state threaded through the program: the list object that
  \<^verbatim>\<open>extract_required_fields\<close> receives as \<^verbatim>\<open>data\<close>, and the effects so far.
\<close>

record state =
  observations :: "pyvalue list"
  trace :: "event list"

definition print :: "message \<Rightarrow> state \<Rightarrow> state" where
  "print m s = s\<lparr>trace := trace s @ [Printed m]\<rparr>"

section \<open>The fetcher\<close>

text \<open>
  What one call of \<^verbatim>\<open>requests.get\<close> does: it raises, or it returns a response with
  its \<^verbatim>\<open>status_code\<close>, its \<^verbatim>\<open>text\<close> and the outcome of \<^verbatim>\<open>response.json()\<close>
  (the parsed body, or the exception of a body that is not JSON). The network is a
  function of the number of requests sent before and of the request.
\<close>

datatype http_outcome = Raises exception | Response int string "exception + pyvalue"

type_synonym network = "nat \<Rightarrow> request \<Rightarrow> http_outcome"

fun is_Requested :: "event \<Rightarrow> bool" where
  "is_Requested (Requested r) = True"
| "is_Requested _ = False"

definition requests_made :: "event list \<Rightarrow> nat" where
  "requests_made evs = length (filter is_Requested evs)"

definition requests_get :: "network \<Rightarrow> request \<Rightarrow> state \<Rightarrow> http_outcome \<times> state" where
  "requests_get net req s =
     (net (requests_made (trace s)) req, s\<lparr>trace := trace s @ [Requested req]\<rparr>)"

text \<open>Lines 24 and 25: the URL and the query parameters; the timeout of line 29.\<close>

definition weather_request :: "string \<Rightarrow> string \<Rightarrow> request" where
  "weather_request city api_key =
     \<lparr>url = ''https://api.openweathermap.org/data/2.5/weather'',
      params = [(''q'', city), (''appid'', api_key), (''units'', ''metric'')],
      timeout = 5\<rparr>"

text \<open>
  The operating system takes a sleep or refuses it: Linux refuses one that would end after
  the last instant of its clock, which depends on the time since it started. \<open>os n x\<close>
  says whether a sleep of \<open>x\<close> seconds is taken when it is asked after \<open>n\<close> effects of
  the run.
\<close>

type_synonym system = "nat \<Rightarrow> real \<Rightarrow> bool"

text \<open>
  \<^verbatim>\<open>time.sleep(secs)\<close> as CPython 3.11 does it. The length is converted to a 64-bit
  number of nanoseconds, the product \<open>secs * 1e9\<close> rounded to a float first: NaN raises
  \<open>ValueError\<close>, a length that does not fit raises \<open>OverflowError\<close> (from
  \<open>2 ^ 63 - 512\<close> nanoseconds on, the product rounds to \<open>2 ^ 63\<close>), a negative length
  raises \<open>ValueError\<close>, and a length that the operating system refuses raises
  \<open>OSError\<close>.
\<close>

definition sleep :: "system \<Rightarrow> pyfloat \<Rightarrow> state \<Rightarrow> (exception + unit) \<times> state" where
  "sleep os secs s =
     (case secs of
        Finite x \<Rightarrow>
          if x * 1000000000 < - (2 ^ 63 + 1024) \<or> 2 ^ 63 - 512 \<le> x * 1000000000
          then (Inl OverflowError, s)
          else if x < 0 then (Inl ValueError, s)
          else if os (length (trace s)) x then (Inr (), s\<lparr>trace := trace s @ [Slept x]\<rparr>)
          else (Inl OSError, s)
      | NaN \<Rightarrow> (Inl ValueError, s)
      | _ \<Rightarrow> (Inl OverflowError, s))"

text \<open>
  The product \<^verbatim>\<open>backoff_factor * (2**attempt)\<close> of line 53, a float by an unbounded
  integer: the signature of the fetcher annotates \<^verbatim>\<open>backoff_factor\<close> as a float and
  \<^verbatim>\<open>retries\<close> as an int. The integer is converted to a float first, which raises \<open>OverflowError\<close>
  from \<open>2 ^ 1024\<close> on, whatever the factor is. The product of a finite float by a power
  of two is exact; where it is beyond the largest float the code computes an infinity,
  and \<open>sleep\<close> refuses that and the exact product with the same exception.
\<close>

definition backoff_delay :: "pyfloat \<Rightarrow> int \<Rightarrow> exception + pyfloat" where
  "backoff_delay backoff_factor attempt =
     (if 1024 \<le> attempt then Inl OverflowError
      else Inr (case backoff_factor of
                  Finite x \<Rightarrow> Finite (x * 2 ^ nat attempt)
                | f \<Rightarrow> f))"

text \<open>
  Lines 29 to 43, the body of the \<^verbatim>\<open>try\<close> statement: it returns a value from the
  function (\<open>Inr\<close>) or raises (\<open>Inl\<close>).
\<close>

definition try_body :: "network \<Rightarrow> string \<Rightarrow> string \<Rightarrow> state \<Rightarrow> (exception + pyvalue) \<times> state" where
  "try_body net city api_key s =
     (case requests_get net (weather_request city api_key) s of
        (Raises e, s1) \<Rightarrow> (Inl e, s1)
      | (Response status_code text body, s1) \<Rightarrow>
          if status_code = 200 then (body, s1)
          else if status_code = 404 then (Inr PNone, print (CityNotFound city) s1)
          else if status_code = 401 then (Inr PNone, print InvalidApiKey s1)
          else (Inr PNone, print (UnexpectedStatus status_code city text) s1))"

text \<open>
  One pass through the body of the \<^verbatim>\<open>for\<close> loop. The first handler,
  \<^verbatim>\<open>except requests.RequestException\<close>, takes every exception of that class and of
  its subclasses, so the three handlers after it never run; an exception of another
  class leaves the function. After a handled exception line 53 computes the delay and
  sleeps; it stands outside the \<^verbatim>\<open>try\<close> statement, so what it raises leaves the
  function.
\<close>

datatype step = Return pyvalue | Raise exception | Continue

definition attempt_once ::
  "system \<Rightarrow> network \<Rightarrow> string \<Rightarrow> string \<Rightarrow> pyfloat \<Rightarrow> int \<Rightarrow> state \<Rightarrow> step \<times> state" where
  "attempt_once os net city api_key backoff_factor attempt s =
     (case try_body net city api_key s of
        (Inr v, s1) \<Rightarrow> (Return v, s1)
      | (Inl e, s1) \<Rightarrow>
          if is_RequestException e then
            (case backoff_delay backoff_factor attempt of
               Inl e' \<Rightarrow> (Raise e', print (ThrewException e) s1)
             | Inr secs \<Rightarrow>
                 (case sleep os secs (print (ThrewException e) s1) of
                    (Inl e', s2) \<Rightarrow> (Raise e', s2)
                  | (Inr u, s2) \<Rightarrow> (Continue, s2)))
          else (Raise e, s1))"

text \<open>
  The loop \<^verbatim>\<open>for attempt in range(retries)\<close> from the index \<open>attempt\<close> on, and lines
  54 and 55 after it.
\<close>

function fetch_loop ::
  "system \<Rightarrow> network \<Rightarrow> string \<Rightarrow> string \<Rightarrow> int \<Rightarrow> pyfloat \<Rightarrow> int \<Rightarrow> state
     \<Rightarrow> (exception + pyvalue) \<times> state" where
  "fetch_loop os net city api_key retries backoff_factor attempt s =
     (if attempt < retries then
        (case attempt_once os net city api_key backoff_factor attempt s of
           (Return v, s1) \<Rightarrow> (Inr v, s1)
         | (Raise e, s1) \<Rightarrow> (Inl e, s1)
         | (Continue, s1) \<Rightarrow>
             fetch_loop os net city api_key retries backoff_factor (attempt + 1) s1)
      else (Inr PNone, print (FailedToFetch city retries) s))"
  by pat_completeness auto
termination
  by (relation "measure (\<lambda>(os, net, city, api_key, retries, backoff_factor, attempt, s).
        nat (retries - attempt))") auto

definition fetch_raw_weather_data_for_city ::
  "system \<Rightarrow> network \<Rightarrow> string \<Rightarrow> string \<Rightarrow> int \<Rightarrow> pyfloat \<Rightarrow> state
     \<Rightarrow> (exception + pyvalue) \<times> state" where
  "fetch_raw_weather_data_for_city os net city api_key retries backoff_factor s =
     fetch_loop os net city api_key retries backoff_factor 0 s"

section \<open>The run over the city list\<close>

text \<open>
  \<^verbatim>\<open>load_dotenv()\<close> adds the pairs of the \<^verbatim>\<open>.env\<close> file to the environment
  without replacing a variable that is already set; \<^verbatim>\<open>os.getenv\<close> reads the result.
\<close>

definition load_dotenv :: "(string \<rightharpoonup> string) \<Rightarrow> (string \<rightharpoonup> string) \<Rightarrow> (string \<rightharpoonup> string)" where
  "load_dotenv dotenv environ = (\<lambda>k. case environ k of Some v \<Rightarrow> Some v | None \<Rightarrow> dotenv k)"

text \<open>
  Lines 130 to 133: the loop over the cities, with the default \<^verbatim>\<open>retries = 3\<close> and
  \<^verbatim>\<open>backoff_factor = 0.3\<close>; only a result that is true is appended.
\<close>

fun fetch_cities ::
  "system \<Rightarrow> network \<Rightarrow> string \<Rightarrow> string list \<Rightarrow> pyvalue list \<Rightarrow> state
     \<Rightarrow> (exception + pyvalue list) \<times> state" where
  "fetch_cities os net api_key [] results s = (Inr results, s)"
| "fetch_cities os net api_key (city # cities) results s =
     (case fetch_raw_weather_data_for_city os net city api_key 3 (Finite (3 / 10)) s of
        (Inl e, s1) \<Rightarrow> (Inl e, s1)
      | (Inr data, s1) \<Rightarrow>
          fetch_cities os net api_key cities
            (if truthy data then results @ [data] else results) s1)"

definition get_weather_data ::
  "system \<Rightarrow> network \<Rightarrow> (string \<rightharpoonup> string) \<Rightarrow> (string \<rightharpoonup> string) \<Rightarrow> string list \<Rightarrow> state
     \<Rightarrow> (exception + pyvalue list) \<times> state" where
  "get_weather_data os net dotenv environ cities s =
     (case load_dotenv dotenv environ ''API_KEY'' of
        None \<Rightarrow> (Inr [], print ApiKeyNotFound s)
      | Some api_key \<Rightarrow>
          if api_key = [] then (Inr [], print ApiKeyNotFound s)
          else fetch_cities os net api_key cities [] s)"

section \<open>The extractor\<close>

text \<open>The dictionary that \<^verbatim>\<open>extract_required_fields\<close> returns, by its nine keys.\<close>

record weather_record =
  city :: pyvalue
  country :: pyvalue
  temp_celsius :: pyvalue
  feels_like_celsius :: pyvalue
  weather_main :: pyvalue
  weather_desc :: pyvalue
  humidity :: pyvalue
  wind_speed :: pyvalue
  timestamp_utc :: string

text \<open>
  The two shapes of nested lookup in lines 66 to 72:
  \<^verbatim>\<open>item.get(outer, {}).get(inner)\<close> and \<^verbatim>\<open>item.get("weather", [{}])[0].get(inner)\<close>.
\<close>

definition get_nested :: "pyvalue \<Rightarrow> string \<Rightarrow> string \<Rightarrow> exception + pyvalue" where
  "get_nested item outer inner =
     and_then (py_get item outer (PDict [])) (\<lambda>d. py_get d inner PNone)"

definition get_weather0 :: "pyvalue \<Rightarrow> string \<Rightarrow> exception + pyvalue" where
  "get_weather0 item inner =
     and_then (py_get item ''weather'' (PList [PDict []])) (\<lambda>w.
     and_then (py_getitem0 w) (\<lambda>w0. py_get w0 inner PNone))"

text \<open>
  Lines 64 to 76, the statements of the \<^verbatim>\<open>try\<close> block before the \<^verbatim>\<open>if\<close>: they
  read the nine values in the source's order and stop at the first exception.
\<close>

definition read_fields :: "pyvalue list \<Rightarrow> int \<Rightarrow> exception + weather_record" where
  "read_fields data city_idx =
     and_then (list_getitem data city_idx) (\<lambda>item.
     and_then (py_get item ''name'' PNone) (\<lambda>city.
     and_then (get_nested item ''sys'' ''country'') (\<lambda>country.
     and_then (get_nested item ''main'' ''temp'') (\<lambda>temp_celsius.
     and_then (get_nested item ''main'' ''feels_like'') (\<lambda>feels_like_celsius.
     and_then (get_weather0 item ''main'') (\<lambda>weather_main.
     and_then (get_weather0 item ''description'') (\<lambda>weather_desc.
     and_then (get_nested item ''main'' ''humidity'') (\<lambda>humidity.
     and_then (get_nested item ''wind'' ''speed'') (\<lambda>wind_speed.
     and_then (py_get item ''dt'' PNone) (\<lambda>timestamp_utc.
     and_then (utcfromtimestamp timestamp_utc) (\<lambda>dt.
       Inr \<lparr>city = city, country = country, temp_celsius = temp_celsius,
            feels_like_celsius = feels_like_celsius, weather_main = weather_main,
            weather_desc = weather_desc, humidity = humidity, wind_speed = wind_speed,
            timestamp_utc = strftime dt\<rparr>)))))))))))"

text \<open>
  \<^verbatim>\<open>extract_required_fields(data, city_idx)\<close>: the \<^verbatim>\<open>try\<close> block, whose
  \<^verbatim>\<open>except Exception\<close> catches every exception of the block, and the test of line 78.
  The function returns the dictionary, or \<^verbatim>\<open>None\<close> after one printed line.
\<close>

definition extract_required_fields :: "int \<Rightarrow> state \<Rightarrow> weather_record option \<times> state" where
  "extract_required_fields city_idx s =
     (case read_fields (observations s) city_idx of
        Inl e \<Rightarrow> (None, print (CouldntExtract e) s)
      | Inr r \<Rightarrow>
          if truthy (city r) \<and> truthy (country r) \<and> temp_celsius r \<noteq> PNone
          then (Some r, s)
          else (None, print (MissingEssentialData city_idx) s))"

section \<open>Notions used to state the properties\<close>



text \<open>A network whose first request times out and whose later requests succeed.\<close>

definition flaky_network :: network where
  "flaky_network n r = (if n = 0 then Raises Timeout else Response 200 ''ok'' (Inr (PDict [])))"

text \<open>
  A network that delivers every response with status 200, the first one with a body that
  is not JSON, so that \<^verbatim>\<open>response.json()\<close> raises the \<^verbatim>\<open>JSONDecodeError\<close> of
  \<^verbatim>\<open>requests\<close>.
\<close>

definition undecodable_network :: network where
  "undecodable_network n r =
     (if n = 0 then Response 200 ''<html>'' (Inl RequestsJSONDecodeError)
      else Response 200 ''ok'' (Inr (PDict [(''cod'', PInt 200)])))"


definition patient_system :: system where
  "patient_system n x = True"

text \<open>The raw observation of the specification's example, as \<^verbatim>\<open>response.json()\<close> gives it.\<close>

definition seattle_observation :: pyvalue where
  "seattle_observation =
     PDict [(''name'', PStr ''Seattle''),
            (''sys'', PDict [(''country'', PStr ''US'')]),
            (''main'', PDict [(''temp'', PFloat (Finite 15)), (''feels_like'', PFloat (Finite 14)),
                             (''humidity'', PInt 70)]),
            (''weather'', PList [PDict [(''main'', PStr ''Clouds''),
                                       (''description'', PStr ''overcast clouds'')]]),
            (''wind'', PDict [(''speed'', PFloat (Finite 3.1))]),
            (''dt'', PInt 1700000000)]"

text \<open>
  The member of an object under a key, as the specification reads a field: \<^verbatim>\<open>None\<close> when
  the value is no object or has no such member.
\<close>

fun member_of :: "pyvalue \<Rightarrow> string \<Rightarrow> pyvalue" where
  "member_of (PDict kvs) key = (case map_of kvs key of Some v \<Rightarrow> v | None \<Rightarrow> PNone)"
| "member_of v key = PNone"

text \<open>The first element of a list, \<^verbatim>\<open>None\<close> when there is none.\<close>

fun first_of :: "pyvalue \<Rightarrow> pyvalue" where
  "first_of (PList (w # ws)) = w"
| "first_of v = PNone"

text \<open>
  The shapes that the lookups of lines 66 to 72 read without an exception: the member
  under \<^verbatim>\<open>sys\<close>, \<^verbatim>\<open>main\<close> and \<^verbatim>\<open>wind\<close> is an object or absent, the member under
  \<^verbatim>\<open>weather\<close> is absent or a list that starts with an object.
\<close>

fun object_or_absent :: "pyvalue option \<Rightarrow> bool" where
  "object_or_absent None = True"
| "object_or_absent (Some (PDict d)) = True"
| "object_or_absent (Some v) = False"

fun objects_or_absent :: "pyvalue option \<Rightarrow> bool" where
  "objects_or_absent None = True"
| "objects_or_absent (Some (PList (PDict d # ws))) = True"
| "objects_or_absent (Some v) = False"

fun well_shaped :: "pyvalue \<Rightarrow> bool" where
  "well_shaped (PDict kvs) =
     (object_or_absent (map_of kvs ''sys'') \<and> object_or_absent (map_of kvs ''main'') \<and>
      objects_or_absent (map_of kvs ''weather'') \<and> object_or_absent (map_of kvs ''wind''))"
| "well_shaped v = False"

text \<open>The record of an observation, field by field, with a given timestamp string.\<close>

definition record_of :: "pyvalue \<Rightarrow> string \<Rightarrow> weather_record" where
  "record_of item stamp =
     \<lparr>city = member_of item ''name'',
      country = member_of (member_of item ''sys'') ''country'',
      temp_celsius = member_of (member_of item ''main'') ''temp'',
      feels_like_celsius = member_of (member_of item ''main'') ''feels_like'',
      weather_main = member_of (first_of (member_of item ''weather'')) ''main'',
      weather_desc = member_of (first_of (member_of item ''weather'')) ''description'',
      humidity = member_of (member_of item ''main'') ''humidity'',
      wind_speed = member_of (member_of item ''wind'') ''speed'',
      timestamp_utc = stamp\<rparr>"

text \<open>
  The three required fields are non-null (the words of the specification), and the test
  of line 78 on them (the name and the country are true values, the temperature is not
  \<^verbatim>\<open>None\<close>).
\<close>

definition required_present :: "pyvalue \<Rightarrow> bool" where
  "required_present item =
     (member_of item ''name'' \<noteq> PNone \<and> member_of (member_of item ''sys'') ''country'' \<noteq> PNone \<and>
      member_of (member_of item ''main'') ''temp'' \<noteq> PNone)"

definition required_true :: "pyvalue \<Rightarrow> bool" where
  "required_true item =
     (truthy (member_of item ''name'') \<and> truthy (member_of (member_of item ''sys'') ''country'') \<and>
      member_of (member_of item ''main'') ''temp'' \<noteq> PNone)"

text \<open>Observations that the properties below are evaluated on.\<close>

definition seattle_datetime :: datetime where
  "seattle_datetime = \<lparr>year = 2023, month = 11, day = 14, hour = 22, minute = 13, second = 20\<rparr>"

definition undated_observation :: pyvalue where
  "undated_observation =
     PDict [(''name'', PStr ''Seattle''),
            (''sys'', PDict [(''country'', PStr ''US'')]),
            (''main'', PDict [(''temp'', PFloat (Finite 15))])]"

definition unnamed_observation :: pyvalue where
  "unnamed_observation =
     PDict [(''name'', PStr []),
            (''sys'', PDict [(''country'', PStr ''US'')]),
            (''main'', PDict [(''temp'', PFloat (Finite 15))]),
            (''dt'', PInt 1700000000)]"

definition sparse_members :: "(string \<times> pyvalue) list" where
  "sparse_members =
     [(''name'', PStr ''Seattle''),
      (''sys'', PDict [(''country'', PStr ''US'')]),
      (''main'', PDict [(''temp'', PFloat (Finite 15))]),
      (''dt'', PInt 1700000000)]"

definition becalmed_observation :: pyvalue where
  "becalmed_observation =
     PDict [(''name'', PStr ''Seattle''),
            (''sys'', PDict [(''country'', PStr ''US'')]),
            (''main'', PDict [(''temp'', PFloat (Finite 15))]),
            (''weather'', PList []),
            (''dt'', PInt 1700000000)]"

definition stateless_observation :: pyvalue where
  "stateless_observation =
     PDict [(''name'', PStr ''Seattle''),
            (''main'', PDict [(''temp'', PFloat (Finite 15))]),
            (''dt'', PInt 1700000000)]"











section \<open>Properties of the fetcher\<close>

declare fetch_loop.simps [simp del]







lemma try_body_requests:
  "try_body net c k s = (r, s1) \<Longrightarrow> requests_made (trace s1) = Suc (requests_made (trace s))"
  by (cases "net (requests_made (trace s)) (weather_request c k)")
     (auto simp add: try_body_def requests_get_def print_def requests_made_def split: if_splits)

lemma try_body_Inl:
  "try_body net c k s = (Inl e, s1) \<Longrightarrow>
   net (requests_made (trace s)) (weather_request c k) = Raises e \<or>
   (\<exists>text. net (requests_made (trace s)) (weather_request c k) = Response 200 text (Inl e))"
  by (cases "net (requests_made (trace s)) (weather_request c k)")
     (auto simp add: try_body_def requests_get_def split: if_splits)

lemma sleep_requests:
  "sleep os secs s = (r, s1) \<Longrightarrow> requests_made (trace s1) = requests_made (trace s)"
  by (cases secs) (auto simp add: sleep_def requests_made_def split: if_splits)

lemma attempt_once_requests:
  "attempt_once os net c k b a s = (st, s1) \<Longrightarrow>
   requests_made (trace s1) = Suc (requests_made (trace s))"
proof -
  assume a: "attempt_once os net c k b a s = (st, s1)"
  obtain r s0 where tb: "try_body net c k s = (r, s0)" by (cases "try_body net c k s")
  note m = try_body_requests[OF tb]
  have pr: "requests_made (trace (print m' s0)) = requests_made (trace s0)" for m'
    by (simp add: print_def requests_made_def)
  show ?thesis
  proof (cases r)
    case (Inr v)
    with a tb m show ?thesis by (simp add: attempt_once_def)
  next
    case (Inl e)
    show ?thesis
    proof (cases "is_RequestException e")
      case False
      with a tb m Inl show ?thesis by (simp add: attempt_once_def)
    next
      case True
      show ?thesis
      proof (cases "backoff_delay b a")
        case (Inl e')
        with a tb m \<open>r = Inl e\<close> True pr show ?thesis by (auto simp add: attempt_once_def)
      next
        case (Inr secs)
        obtain r2 s2 where sl: "sleep os secs (print (ThrewException e) s0) = (r2, s2)"
          by (cases "sleep os secs (print (ThrewException e) s0)")
        from sleep_requests[OF sl] pr m
        have "requests_made (trace s2) = Suc (requests_made (trace s))" by simp
        with a tb \<open>r = Inl e\<close> True Inr sl show ?thesis
          by (cases r2) (auto simp add: attempt_once_def)
      qed
    qed
  qed
qed

lemma attempt_once_Continue:
  "attempt_once os net c k b a s = (Continue, s1) \<Longrightarrow>
   \<exists>e. is_RequestException e \<and>
     (net (requests_made (trace s)) (weather_request c k) = Raises e \<or>
      (\<exists>text. net (requests_made (trace s)) (weather_request c k) = Response 200 text (Inl e)))"
proof -
  assume a: "attempt_once os net c k b a s = (Continue, s1)"
  obtain r s0 where tb: "try_body net c k s = (r, s0)" by (cases "try_body net c k s")
  show ?thesis
  proof (cases r)
    case (Inr v)
    with a tb show ?thesis by (simp add: attempt_once_def)
  next
    case (Inl e)
    with a tb have "is_RequestException e"
      by (auto simp add: attempt_once_def split: if_splits)
    with try_body_Inl[of net c k s e s0] tb Inl show ?thesis by blast
  qed
qed

lemma fetch_loop_retry_only_after_exception:
  "i + 1 < requests_made (trace (snd (fetch_loop os net c k retries b a s)))
             - requests_made (trace s) \<Longrightarrow>
   \<exists>e. is_RequestException e \<and>
     (net (requests_made (trace s) + i) (weather_request c k) = Raises e \<or>
      (\<exists>text. net (requests_made (trace s) + i) (weather_request c k) = Response 200 text (Inl e)))"
proof (induction os net c k retries b a s arbitrary: i rule: fetch_loop.induct)
  case (1 os net c k retries b a s)
  show ?case
  proof (cases "a < retries")
    case False
    with "1.prems" show ?thesis
      by (subst (asm) fetch_loop.simps) (simp add: print_def requests_made_def)
  next
    case True
    obtain st s1 where step: "attempt_once os net c k b a s = (st, s1)"
      by (cases "attempt_once os net c k b a s")
    note made = attempt_once_requests[OF step]
    show ?thesis
    proof (cases st)
      case (Return v)
      with "1.prems" True step made show ?thesis
        by (subst (asm) fetch_loop.simps) simp
    next
      case (Raise e)
      with "1.prems" True step made show ?thesis
        by (subst (asm) fetch_loop.simps) simp
    next
      case Continue
      have unfold: "fetch_loop os net c k retries b a s = fetch_loop os net c k retries b (a + 1) s1"
        by (subst fetch_loop.simps) (simp add: True step Continue)
      show ?thesis
      proof (cases i)
        case 0
        with attempt_once_Continue[of os net c k b a s s1] step Continue show ?thesis by simp
      next
        case (Suc j)
        with "1.prems" unfold made
        have "j + 1 < requests_made (trace (snd (fetch_loop os net c k retries b (a + 1) s1)))
                - requests_made (trace s1)" by simp
        from "1.IH"[OF True step[symmetric] Continue this] made Suc
        show ?thesis by simp
      qed
    qed
  qed
qed

lemma fetch_loop_http_error:
  assumes "a < retries"
    and "net (requests_made (trace s)) (weather_request c k) = Response code text body"
    and "code \<noteq> 200"
  shows "fetch_loop os net c k retries b a s =
     (Inr PNone, s\<lparr>trace := trace s @ [Requested (weather_request c k),
        Printed (if code = 404 then CityNotFound c else if code = 401 then InvalidApiKey
                 else UnexpectedStatus code c text)]\<rparr>)"
  using assms
  by (subst fetch_loop.simps)
     (simp add: attempt_once_def try_body_def requests_get_def print_def)

text \<open>
  Claim C5, amended. When the first request is answered with a status other than 200, the
  fetcher prints the diagnostic of that status (city not found for 404, invalid API key
  for 401, the code and the body otherwise) and returns \<^verbatim>\<open>None\<close>: one request, no
  sleep, no second attempt. In every run, an attempt that is followed by another attempt
  raised an exception of the class \<open>RequestException\<close> in the \<^verbatim>\<open>try\<close> block: either
  \<^verbatim>\<open>requests.get\<close> raised it, or \<^verbatim>\<open>response.json()\<close> raised it on a response with
  status 200.
\<close>

theorem http_error_is_final:
  "(0 < retries \<and> net (requests_made (trace s)) (weather_request c k) = Response code text body \<and>
      code \<noteq> 200 \<longrightarrow>
    fetch_raw_weather_data_for_city os net c k retries b s =
     (Inr PNone, s\<lparr>trace := trace s @ [Requested (weather_request c k),
        Printed (if code = 404 then CityNotFound c else if code = 401 then InvalidApiKey
                 else UnexpectedStatus code c text)]\<rparr>)) \<and>
   (i + 1 < requests_made (trace (snd (fetch_raw_weather_data_for_city os net c k retries b s)))
              - requests_made (trace s) \<longrightarrow>
    (\<exists>e. is_RequestException e \<and>
       (net (requests_made (trace s) + i) (weather_request c k) = Raises e \<or>
        (\<exists>body_text. net (requests_made (trace s) + i) (weather_request c k) =
           Response 200 body_text (Inl e)))))"
  using fetch_loop_http_error[of 0 retries net s c k code "text" body os b]
    fetch_loop_retry_only_after_exception[of i os net c k retries b 0 s]
  by (simp add: fetch_raw_weather_data_for_city_def)

text \<open>
  Claim C5 as stated fails in its last part: a response that the network delivered with
  status 200 and a body that is not JSON is retried after the backoff, since the
  \<^verbatim>\<open>JSONDecodeError\<close> of \<^verbatim>\<open>requests\<close> is a \<open>RequestException\<close>.
\<close>

theorem http_error_is_final_counterexample:
  "undecodable_network 0 (weather_request ''Seattle'' ''key'') =
     Response 200 ''<html>'' (Inl RequestsJSONDecodeError) \<and>
   fetch_raw_weather_data_for_city patient_system undecodable_network ''Seattle'' ''key'' 3
       (Finite (3 / 10)) \<lparr>observations = [], trace = []\<rparr> =
     (Inr (PDict [(''cod'', PInt 200)]), \<lparr>observations = [], trace =
        [Requested (weather_request ''Seattle'' ''key''),
         Printed (ThrewException RequestsJSONDecodeError), Slept (3 / 10),
         Requested (weather_request ''Seattle'' ''key'')]\<rparr>)"
  by (simp add: fetch_raw_weather_data_for_city_def fetch_loop.simps attempt_once_def
      try_body_def requests_get_def undecodable_network_def backoff_delay_def sleep_def
      print_def patient_system_def requests_made_def)

theorem http_error_is_final_witness:
  "fetch_raw_weather_data_for_city patient_system (\<lambda>n r. Response 404 ''nf'' (Inl ValueError))
       ''Atlantis'' ''key'' 3 (Finite (3 / 10)) \<lparr>observations = [], trace = []\<rparr> =
     (Inr PNone, \<lparr>observations = [], trace =
        [Requested (weather_request ''Atlantis'' ''key''), Printed (CityNotFound ''Atlantis'')]\<rparr>) \<and>
   requests_made (trace (snd (fetch_raw_weather_data_for_city patient_system flaky_network
       ''Seattle'' ''key'' 3 (Finite (3 / 10)) \<lparr>observations = [], trace = []\<rparr>))) = 2 \<and>
   (\<exists>e. is_RequestException e \<and>
      (flaky_network 0 (weather_request ''Seattle'' ''key'') = Raises e \<or>
       (\<exists>body_text. flaky_network 0 (weather_request ''Seattle'' ''key'') =
          Response 200 body_text (Inl e))))"
proof -
  have run: "requests_made (trace (snd (fetch_raw_weather_data_for_city patient_system
       flaky_network ''Seattle'' ''key'' 3 (Finite (3 / 10))
       \<lparr>observations = [], trace = []\<rparr>))) = 2"
    by (simp add: fetch_raw_weather_data_for_city_def fetch_loop.simps attempt_once_def
        try_body_def requests_get_def print_def sleep_def backoff_delay_def flaky_network_def
        patient_system_def requests_made_def)
  show ?thesis
    using http_error_is_final[of 3 "\<lambda>n r. Response 404 ''nf'' (Inl ValueError)"
        "\<lparr>observations = [], trace = []\<rparr>" "''Atlantis''" "''key''" 404 "''nf''"
        "Inl ValueError" patient_system "Finite (3 / 10)" 0]
      http_error_is_final[of 3 flaky_network
        "\<lparr>observations = [], trace = []\<rparr>" "''Seattle''" "''key''" 200 "''ok''"
        "Inl ValueError" patient_system "Finite (3 / 10)" 0]
      run
    by (simp add: requests_made_def)
qed

text \<open>
  Claim C10. With \<^verbatim>\<open>retries = 0\<close> the fetcher sends no request and never sleeps: it
  prints the final failure message and returns \<^verbatim>\<open>None\<close>.
\<close>

theorem fetch_zero_retries:
  "fetch_raw_weather_data_for_city os net c k 0 b s =
     (Inr PNone, s\<lparr>trace := trace s @ [Printed (FailedToFetch c 0)]\<rparr>)"
  by (simp add: fetch_raw_weather_data_for_city_def fetch_loop.simps print_def)

text \<open>
  Claim C7. When neither the environment nor the \<^verbatim>\<open>.env\<close> file provides
  \<^verbatim>\<open>API_KEY\<close>, the run over any city list prints the missing-key message once and
  returns the empty list: it raises nothing and sends no request.
\<close>

theorem missing_api_key:
  "environ ''API_KEY'' = None \<Longrightarrow> dotenv ''API_KEY'' = None \<Longrightarrow>
   get_weather_data os net dotenv environ cities s =
     (Inr [], s\<lparr>trace := trace s @ [Printed ApiKeyNotFound]\<rparr>)"
  by (simp add: get_weather_data_def load_dotenv_def print_def)

theorem missing_api_key_witness:
  "get_weather_data patient_system flaky_network Map.empty [''HOME'' \<mapsto> ''/root'']
       [''Seattle'', ''Mumbai'', ''Los Angeles''] \<lparr>observations = [], trace = []\<rparr> =
     (Inr [], \<lparr>observations = [], trace = [Printed ApiKeyNotFound]\<rparr>)"
  using missing_api_key[of "[''HOME'' \<mapsto> ''/root'']" Map.empty patient_system flaky_network
      "[''Seattle'', ''Mumbai'', ''Los Angeles'']" "\<lparr>observations = [], trace = []\<rparr>"]
  by simp

section \<open>Properties of the extractor\<close>

lemmas extract_defs =
  extract_required_fields_def read_fields_def and_then_def list_getitem_def py_get_def
  get_nested_def get_weather0_def py_getitem0_def

lemma from_seconds_seattle:
  "from_seconds 1700000000 = Inr seattle_datetime"
  by (simp add: seattle_datetime_def from_seconds_def MIN_TIMESTAMP_def MAX_TIMESTAMP_def ord2ymd_def Let_def DAYS_BEFORE_MONTH_def DAYS_IN_MONTH_def)

lemma strftime_seattle:
  "strftime seattle_datetime = ''2023-11-14 22:13:20''"
  by (simp add: seattle_datetime_def strftime_def year_digits_def pad2_def pad4_def digit_def)

text \<open>
  Claim C3. On the raw observation of the specification's example, the extractor returns
  the record of the example, with the timestamp 1700000000 printed as
  \<^verbatim>\<open>2023-11-14 22:13:20\<close>, and prints nothing.
\<close>

theorem extract_seattle:
  "extract_required_fields 0 \<lparr>observations = [seattle_observation], trace = tr\<rparr> =
     (Some \<lparr>city = PStr ''Seattle'', country = PStr ''US'', temp_celsius = PFloat (Finite 15),
            feels_like_celsius = PFloat (Finite 14), weather_main = PStr ''Clouds'',
            weather_desc = PStr ''overcast clouds'', humidity = PInt 70,
            wind_speed = PFloat (Finite 3.1), timestamp_utc = ''2023-11-14 22:13:20''\<rparr>,
      \<lparr>observations = [seattle_observation], trace = tr\<rparr>)"
  by (simp add: seattle_observation_def extract_defs utcfromtimestamp_def
      from_seconds_seattle strftime_seattle)

text \<open>
  Claim C8. The extractor is defined on every index. An index outside
  \<open>-len(data) \<le> i < len(data)\<close>, which is every index when the list is empty, makes
  \<^verbatim>\<open>data[city_idx]\<close> raise \<open>IndexError\<close>; the handler prints it and the function
  returns \<^verbatim>\<open>None\<close>. On any index the function returns a record and prints nothing, or
  returns \<^verbatim>\<open>None\<close> after one printed line.
\<close>

theorem extract_index_out_of_range:
  "(i < - int (length (observations s)) \<or> int (length (observations s)) \<le> i \<longrightarrow>
      extract_required_fields i s = (None, print (CouldntExtract IndexError) s)) \<and>
   ((\<exists>r. extract_required_fields i s = (Some r, s)) \<or>
    (\<exists>m. extract_required_fields i s = (None, print m s)))"
  by (cases "read_fields (observations s) i")
     (auto simp add: extract_required_fields_def read_fields_def and_then_def list_getitem_def
        Let_def)

theorem extract_index_out_of_range_witness:
  "extract_required_fields 1 \<lparr>observations = [seattle_observation], trace = []\<rparr> =
     (None, \<lparr>observations = [seattle_observation],
             trace = [Printed (CouldntExtract IndexError)]\<rparr>) \<and>
   extract_required_fields (- 1) \<lparr>observations = [], trace = []\<rparr> =
     (None, \<lparr>observations = [], trace = [Printed (CouldntExtract IndexError)]\<rparr>)"
  using extract_index_out_of_range[of 1 "\<lparr>observations = [seattle_observation], trace = []\<rparr>"]
    extract_index_out_of_range[of "- 1" "\<lparr>observations = [], trace = []\<rparr>"]
  by (simp add: print_def)

text \<open>
  Claim C9. The extractor only reads: after the call, the list of observations, and so
  every observation in it, is what it was before.
\<close>

theorem extract_reads_only:
  "observations (snd (extract_required_fields i s)) = observations s"
  by (simp add: extract_required_fields_def print_def split: sum.split)

lemma well_shaped_eq:
  "well_shaped item =
     (\<exists>kvs. item = PDict kvs \<and> object_or_absent (map_of kvs ''sys'') \<and>
        object_or_absent (map_of kvs ''main'') \<and> objects_or_absent (map_of kvs ''weather'') \<and>
        object_or_absent (map_of kvs ''wind''))"
  by (cases item) simp_all

lemma and_then_eq_Inr: "(and_then m f = Inr r) = (\<exists>v. m = Inr v \<and> f v = Inr r)"
  by (cases m) (simp_all add: and_then_def)

lemma py_get_eq_Inr:
  "(py_get item key PNone = Inr v) = (\<exists>kvs. item = PDict kvs \<and> v = member_of item key)"
  by (cases item) (auto simp add: py_get_def split: option.splits)

lemma get_nested_eq_Inr:
  "(get_nested item outer inner = Inr v) =
     (\<exists>kvs. item = PDict kvs \<and> object_or_absent (map_of kvs outer) \<and>
            v = member_of (member_of item outer) inner)"
proof (cases item)
  case (PDict kvs)
  show ?thesis
  proof (cases "map_of kvs outer")
    case None
    with PDict show ?thesis by (auto simp add: get_nested_def and_then_def py_get_def)
  next
    case (Some w)
    with PDict show ?thesis
      by (cases w) (auto simp add: get_nested_def and_then_def py_get_def split: option.splits)
  qed
qed (simp_all add: get_nested_def and_then_def py_get_def)

lemma get_weather0_eq_Inr:
  "(get_weather0 item inner = Inr v) =
     (\<exists>kvs. item = PDict kvs \<and> objects_or_absent (map_of kvs ''weather'') \<and>
            v = member_of (first_of (member_of item ''weather'')) inner)"
proof (cases item)
  case (PDict kvs)
  show ?thesis
  proof (cases "map_of kvs ''weather''")
    case None
    with PDict show ?thesis
      by (auto simp add: get_weather0_def and_then_def py_get_def py_getitem0_def list_getitem_def)
  next
    case (Some w)
    show ?thesis
    proof (cases w)
      case (PList ws)
      show ?thesis
      proof (cases ws)
        case Nil
        with PDict Some PList show ?thesis
          by (simp add: get_weather0_def and_then_def py_get_def py_getitem0_def list_getitem_def)
      next
        case (Cons w0 rest)
        with PDict Some PList show ?thesis
          by (cases w0)
             (auto simp add: get_weather0_def and_then_def py_get_def py_getitem0_def
                list_getitem_def split: option.splits)
      qed
    next
      case (PStr str)
      with PDict Some show ?thesis
        by (cases str)
           (simp_all add: get_weather0_def and_then_def py_get_def py_getitem0_def)
    qed (use PDict Some in \<open>simp_all add: get_weather0_def and_then_def py_get_def py_getitem0_def\<close>)
  qed
qed (simp_all add: get_weather0_def and_then_def py_get_def)

lemma read_fields_eq_Inr:
  "(read_fields data i = Inr r) =
     (\<exists>item dt. list_getitem data i = Inr item \<and> well_shaped item \<and>
        utcfromtimestamp (member_of item ''dt'') = Inr dt \<and> r = record_of item (strftime dt))"
  unfolding read_fields_def and_then_eq_Inr py_get_eq_Inr get_nested_eq_Inr get_weather0_eq_Inr
    well_shaped_eq
  by (auto simp add: record_of_def)

lemma read_fields_cases:
  "(\<exists>e. read_fields data i = Inl e) \<or> (\<exists>r. read_fields data i = Inr r)"
  by (cases "read_fields data i") simp_all

text \<open>
  Claim C1, amended. The extractor returns a record exactly when the observation at the
  index can be read (it is an object of the shape above and its \<^verbatim>\<open>dt\<close> converts to a
  UTC date) and its name and country are true values and its temperature is not
  \<^verbatim>\<open>None\<close>; the record is the record of the observation. A returned record has a
  non-null city, country and temperature, and nothing is printed with it. When the
  observation can be read and the test of line 78 fails, the skip message is printed and
  \<^verbatim>\<open>None\<close> returned. When one of the three fields is null or missing, \<^verbatim>\<open>None\<close> is
  returned after one printed line.
\<close>

theorem extract_returns_record_iff:
  "(fst (extract_required_fields i s) = Some r \<longleftrightarrow>
      (\<exists>item dt. list_getitem (observations s) i = Inr item \<and> well_shaped item \<and>
         utcfromtimestamp (member_of item ''dt'') = Inr dt \<and> required_true item \<and>
         r = record_of item (strftime dt))) \<and>
   (fst (extract_required_fields i s) = Some r \<longrightarrow>
      city r \<noteq> PNone \<and> country r \<noteq> PNone \<and> temp_celsius r \<noteq> PNone \<and>
      snd (extract_required_fields i s) = s) \<and>
   (list_getitem (observations s) i = Inr item \<and> well_shaped item \<and>
      utcfromtimestamp (member_of item ''dt'') = Inr dt \<and> \<not> required_true item \<longrightarrow>
      extract_required_fields i s = (None, print (MissingEssentialData i) s)) \<and>
   (list_getitem (observations s) i = Inr item \<and> \<not> required_present item \<longrightarrow>
      (\<exists>m. extract_required_fields i s = (None, print m s)))"
proof -
  have A: "fst (extract_required_fields i s) = Some r \<longleftrightarrow>
      (\<exists>item dt. list_getitem (observations s) i = Inr item \<and> well_shaped item \<and>
         utcfromtimestamp (member_of item ''dt'') = Inr dt \<and> required_true item \<and>
         r = record_of item (strftime dt))"
  proof (cases "read_fields (observations s) i")
    case (Inl e)
    then have "\<not> (\<exists>item dt. list_getitem (observations s) i = Inr item \<and> well_shaped item \<and>
         utcfromtimestamp (member_of item ''dt'') = Inr dt \<and> r = record_of item (strftime dt))"
      using read_fields_eq_Inr[of "observations s" i r] by simp
    with Inl show ?thesis by (auto simp add: extract_required_fields_def)
  next
    case (Inr r')
    then obtain item dt where it: "list_getitem (observations s) i = Inr item" "well_shaped item"
        "utcfromtimestamp (member_of item ''dt'') = Inr dt" "r' = record_of item (strftime dt)"
      using read_fields_eq_Inr[of "observations s" i r'] by auto
    have tr: "(truthy (city r') \<and> truthy (country r') \<and> temp_celsius r' \<noteq> PNone) = required_true item"
      by (simp add: it(4) record_of_def required_true_def)
    show ?thesis
      using Inr it tr by (auto simp add: extract_required_fields_def)
  qed
  have B: "fst (extract_required_fields i s) = Some r \<longrightarrow>
      city r \<noteq> PNone \<and> country r \<noteq> PNone \<and> temp_celsius r \<noteq> PNone \<and>
      snd (extract_required_fields i s) = s"
    by (cases "read_fields (observations s) i")
       (auto simp add: extract_required_fields_def split: if_splits)
  have C: "list_getitem (observations s) i = Inr item \<and> well_shaped item \<and>
      utcfromtimestamp (member_of item ''dt'') = Inr dt \<and> \<not> required_true item \<longrightarrow>
      extract_required_fields i s = (None, print (MissingEssentialData i) s)"
  proof
    assume a: "list_getitem (observations s) i = Inr item \<and> well_shaped item \<and>
      utcfromtimestamp (member_of item ''dt'') = Inr dt \<and> \<not> required_true item"
    then have rf: "read_fields (observations s) i = Inr (record_of item (strftime dt))"
      using read_fields_eq_Inr[of "observations s" i "record_of item (strftime dt)"] by blast
    from a have "\<not> (truthy (city (record_of item (strftime dt))) \<and>
        truthy (country (record_of item (strftime dt))) \<and>
        temp_celsius (record_of item (strftime dt)) \<noteq> PNone)"
      by (simp add: record_of_def required_true_def)
    then show "extract_required_fields i s = (None, print (MissingEssentialData i) s)"
      by (simp add: extract_required_fields_def rf)
  qed
  have D: "list_getitem (observations s) i = Inr item \<and> \<not> required_present item \<longrightarrow>
      (\<exists>m. extract_required_fields i s = (None, print m s))"
  proof
    assume a: "list_getitem (observations s) i = Inr item \<and> \<not> required_present item"
    show "\<exists>m. extract_required_fields i s = (None, print m s)"
    proof (cases "read_fields (observations s) i")
      case (Inl e)
      then show ?thesis by (auto simp add: extract_required_fields_def)
    next
      case (Inr r')
      then obtain dt where it: "r' = record_of item (strftime dt)"
        using read_fields_eq_Inr[of "observations s" i r'] a by auto
      have "\<not> (truthy (city r') \<and> truthy (country r') \<and> temp_celsius r' \<noteq> PNone)"
        using a by (auto simp add: it record_of_def required_present_def)
      with Inr show ?thesis by (auto simp add: extract_required_fields_def)
    qed
  qed
  show ?thesis
    by (rule conjI[OF A conjI[OF B conjI[OF C D]]])
qed


text \<open>
  Claim C1 as stated fails: an observation with the three fields and no \<^verbatim>\<open>dt\<close>, and
  one whose name is the empty string, give no record.
\<close>

theorem extract_returns_record_iff_counterexample:
  "required_present undated_observation \<and>
   extract_required_fields 0 \<lparr>observations = [undated_observation], trace = []\<rparr> =
     (None, \<lparr>observations = [undated_observation],
             trace = [Printed (CouldntExtract TypeError)]\<rparr>) \<and>
   required_present unnamed_observation \<and>
   extract_required_fields 0 \<lparr>observations = [unnamed_observation], trace = []\<rparr> =
     (None, \<lparr>observations = [unnamed_observation],
             trace = [Printed (MissingEssentialData 0)]\<rparr>)"
  by (simp add: required_present_def undated_observation_def unnamed_observation_def
      extract_defs utcfromtimestamp_def from_seconds_seattle print_def)

theorem extract_returns_record_iff_witness:
  "fst (extract_required_fields 0 \<lparr>observations = [PDict sparse_members], trace = []\<rparr>) =
     Some (record_of (PDict sparse_members) ''2023-11-14 22:13:20'') \<and>
   city (record_of (PDict sparse_members) ''2023-11-14 22:13:20'') \<noteq> PNone \<and>
   extract_required_fields 0 \<lparr>observations = [unnamed_observation], trace = []\<rparr> =
     (None, \<lparr>observations = [unnamed_observation],
             trace = [Printed (MissingEssentialData 0)]\<rparr>) \<and>
   (\<exists>m. extract_required_fields 0 \<lparr>observations = [PDict []], trace = []\<rparr> =
     (None, \<lparr>observations = [PDict []], trace = [Printed m]\<rparr>))"
proof -
  have sp: "list_getitem [PDict sparse_members] 0 = Inr (PDict sparse_members)"
      "well_shaped (PDict sparse_members)"
      "utcfromtimestamp (member_of (PDict sparse_members) ''dt'') = Inr seattle_datetime"
      "required_true (PDict sparse_members)"
    by (simp_all add: sparse_members_def list_getitem_def utcfromtimestamp_def
        from_seconds_seattle required_true_def)
  have un: "list_getitem [unnamed_observation] 0 = Inr unnamed_observation"
      "well_shaped unnamed_observation"
      "utcfromtimestamp (member_of unnamed_observation ''dt'') = Inr seattle_datetime"
      "\<not> required_true unnamed_observation"
    by (simp_all add: unnamed_observation_def list_getitem_def utcfromtimestamp_def
        from_seconds_seattle required_true_def)
  have em: "list_getitem [PDict []] 0 = Inr (PDict [])" "\<not> required_present (PDict [])"
    by (simp_all add: list_getitem_def required_present_def)
  have one: "fst (extract_required_fields 0 \<lparr>observations = [PDict sparse_members], trace = []\<rparr>) =
     Some (record_of (PDict sparse_members) ''2023-11-14 22:13:20'')"
    using extract_returns_record_iff[of 0 "\<lparr>observations = [PDict sparse_members], trace = []\<rparr>"
        "record_of (PDict sparse_members) ''2023-11-14 22:13:20''" "PDict []" seattle_datetime] sp
    by (auto simp add: strftime_seattle)
  have two: "city (record_of (PDict sparse_members) ''2023-11-14 22:13:20'') \<noteq> PNone"
    using extract_returns_record_iff[of 0 "\<lparr>observations = [PDict sparse_members], trace = []\<rparr>"
        "record_of (PDict sparse_members) ''2023-11-14 22:13:20''" "PDict []" seattle_datetime] one
    by simp
  have three: "extract_required_fields 0 \<lparr>observations = [unnamed_observation], trace = []\<rparr> =
     (None, \<lparr>observations = [unnamed_observation],
             trace = [Printed (MissingEssentialData 0)]\<rparr>)"
    using extract_returns_record_iff[of 0 "\<lparr>observations = [unnamed_observation], trace = []\<rparr>"
        undefined unnamed_observation seattle_datetime] un
    by (simp add: print_def)
  have four: "\<exists>m. extract_required_fields 0 \<lparr>observations = [PDict []], trace = []\<rparr> =
     (None, \<lparr>observations = [PDict []], trace = [Printed m]\<rparr>)"
    using extract_returns_record_iff[of 0 "\<lparr>observations = [PDict []], trace = []\<rparr>"
        undefined "PDict []" seattle_datetime] em
    by (simp add: print_def)
  from one two three four show ?thesis by blast
qed

lemma read_fields_not_well_shaped:
  "list_getitem data i = Inr item \<Longrightarrow> \<not> well_shaped item \<Longrightarrow> \<exists>e. read_fields data i = Inl e"
  using read_fields_eq_Inr[of data i] read_fields_cases[of data i] by auto

text \<open>
  Claim C6, amended. A nested lookup whose outer key is absent, or whose outer value is an
  object (for \<^verbatim>\<open>weather\<close>: a list that starts with an object) without the inner key,
  gives \<^verbatim>\<open>None\<close> for that field and raises nothing. That alone does not give the
  record. On an observation in which \<^verbatim>\<open>sys\<close>, \<^verbatim>\<open>main\<close> and \<^verbatim>\<open>wind\<close> are objects or
  absent and \<^verbatim>\<open>weather\<close> is absent or a list that starts with an object, and whose
  \<^verbatim>\<open>dt\<close> converts to a date: when the name and the country are true values and the
  temperature is not \<^verbatim>\<open>None\<close>, the record is returned with every field as the
  observation has it, \<^verbatim>\<open>None\<close> where it has none; when \<^verbatim>\<open>sys.country\<close> or
  \<^verbatim>\<open>main.temp\<close> is missing or null, the line about missing essential data is printed
  and \<^verbatim>\<open>None\<close> is returned for the whole record. On an observation of another shape
  a lookup raises, the handler prints the exception and \<^verbatim>\<open>None\<close> is returned for the
  whole record.
\<close>

theorem nested_lookup_of_missing_key:
  "(map_of kvs outer = None \<or> (\<exists>d. map_of kvs outer = Some (PDict d) \<and> map_of d inner = None) \<longrightarrow>
      get_nested (PDict kvs) outer inner = Inr PNone) \<and>
   (map_of kvs ''weather'' = None \<or>
      (\<exists>d ws. map_of kvs ''weather'' = Some (PList (PDict d # ws)) \<and> map_of d inner = None) \<longrightarrow>
      get_weather0 (PDict kvs) inner = Inr PNone) \<and>
   (list_getitem (observations s) i = Inr item \<and> well_shaped item \<and>
      utcfromtimestamp (member_of item ''dt'') = Inr dt \<and> required_true item \<longrightarrow>
      extract_required_fields i s = (Some (record_of item (strftime dt)), s)) \<and>
   (list_getitem (observations s) i = Inr item \<and> well_shaped item \<and>
      utcfromtimestamp (member_of item ''dt'') = Inr dt \<and>
      (member_of (member_of item ''sys'') ''country'' = PNone \<or>
       member_of (member_of item ''main'') ''temp'' = PNone) \<longrightarrow>
      extract_required_fields i s = (None, print (MissingEssentialData i) s)) \<and>
   (list_getitem (observations s) i = Inr item \<and> \<not> well_shaped item \<longrightarrow>
      (\<exists>e. extract_required_fields i s = (None, print (CouldntExtract e) s)))"
proof -
  have A: "map_of kvs outer = None \<or> (\<exists>d. map_of kvs outer = Some (PDict d) \<and> map_of d inner = None) \<longrightarrow>
      get_nested (PDict kvs) outer inner = Inr PNone"
    by (auto simp add: get_nested_eq_Inr)
  have B: "map_of kvs ''weather'' = None \<or>
      (\<exists>d ws. map_of kvs ''weather'' = Some (PList (PDict d # ws)) \<and> map_of d inner = None) \<longrightarrow>
      get_weather0 (PDict kvs) inner = Inr PNone"
    by (auto simp add: get_weather0_eq_Inr)
  have C: "list_getitem (observations s) i = Inr item \<and> well_shaped item \<and>
      utcfromtimestamp (member_of item ''dt'') = Inr dt \<and> required_true item \<longrightarrow>
      extract_required_fields i s = (Some (record_of item (strftime dt)), s)"
  proof
    assume a: "list_getitem (observations s) i = Inr item \<and> well_shaped item \<and>
      utcfromtimestamp (member_of item ''dt'') = Inr dt \<and> required_true item"
    then have rf: "read_fields (observations s) i = Inr (record_of item (strftime dt))"
      using read_fields_eq_Inr[of "observations s" i "record_of item (strftime dt)"] by blast
    from a have "truthy (city (record_of item (strftime dt))) \<and>
        truthy (country (record_of item (strftime dt))) \<and>
        temp_celsius (record_of item (strftime dt)) \<noteq> PNone"
      by (simp add: record_of_def required_true_def)
    then show "extract_required_fields i s = (Some (record_of item (strftime dt)), s)"
      by (simp add: extract_required_fields_def rf)
  qed
  have D: "list_getitem (observations s) i = Inr item \<and> \<not> well_shaped item \<longrightarrow>
      (\<exists>e. extract_required_fields i s = (None, print (CouldntExtract e) s))"
  proof
    assume a: "list_getitem (observations s) i = Inr item \<and> \<not> well_shaped item"
    then obtain e where "read_fields (observations s) i = Inl e"
      using read_fields_not_well_shaped[of "observations s" i item] by blast
    then have "extract_required_fields i s = (None, print (CouldntExtract e) s)"
      by (simp add: extract_required_fields_def)
    then show "\<exists>e. extract_required_fields i s = (None, print (CouldntExtract e) s)"
      by blast
  qed
  have E: "list_getitem (observations s) i = Inr item \<and> well_shaped item \<and>
      utcfromtimestamp (member_of item ''dt'') = Inr dt \<and>
      (member_of (member_of item ''sys'') ''country'' = PNone \<or>
       member_of (member_of item ''main'') ''temp'' = PNone) \<longrightarrow>
      extract_required_fields i s = (None, print (MissingEssentialData i) s)"
  proof
    assume a: "list_getitem (observations s) i = Inr item \<and> well_shaped item \<and>
      utcfromtimestamp (member_of item ''dt'') = Inr dt \<and>
      (member_of (member_of item ''sys'') ''country'' = PNone \<or>
       member_of (member_of item ''main'') ''temp'' = PNone)"
    then have rf: "read_fields (observations s) i = Inr (record_of item (strftime dt))"
      using read_fields_eq_Inr[of "observations s" i "record_of item (strftime dt)"] by blast
    from a have "\<not> (truthy (city (record_of item (strftime dt))) \<and>
        truthy (country (record_of item (strftime dt))) \<and>
        temp_celsius (record_of item (strftime dt)) \<noteq> PNone)"
      by (auto simp add: record_of_def)
    then show "extract_required_fields i s = (None, print (MissingEssentialData i) s)"
      by (simp add: extract_required_fields_def rf)
  qed
  show ?thesis
    by (rule conjI[OF A conjI[OF B conjI[OF C conjI[OF E D]]]])
qed

text \<open>
  Claim C6 as stated fails: with an empty \<^verbatim>\<open>weather\<close> list the field
  \<^verbatim>\<open>weather[0].main\<close> is missing, the lookup raises \<open>IndexError\<close> and the whole
  record is lost.
\<close>

theorem nested_lookup_of_missing_key_counterexample:
  "member_of (first_of (member_of becalmed_observation ''weather'')) ''main'' = PNone \<and>
   get_weather0 becalmed_observation ''main'' = Inl IndexError \<and>
   extract_required_fields 0 \<lparr>observations = [becalmed_observation], trace = []\<rparr> =
     (None, \<lparr>observations = [becalmed_observation],
             trace = [Printed (CouldntExtract IndexError)]\<rparr>)"
  by (simp add: becalmed_observation_def extract_defs print_def)

theorem nested_lookup_of_missing_key_witness:
  "get_nested (PDict sparse_members) ''wind'' ''speed'' = Inr PNone \<and>
   get_nested (PDict sparse_members) ''main'' ''humidity'' = Inr PNone \<and>
   get_weather0 (PDict sparse_members) ''description'' = Inr PNone \<and>
   extract_required_fields 0 \<lparr>observations = [PDict sparse_members], trace = []\<rparr> =
     (Some \<lparr>city = PStr ''Seattle'', country = PStr ''US'', temp_celsius = PFloat (Finite 15),
            feels_like_celsius = PNone, weather_main = PNone, weather_desc = PNone,
            humidity = PNone, wind_speed = PNone, timestamp_utc = ''2023-11-14 22:13:20''\<rparr>,
      \<lparr>observations = [PDict sparse_members], trace = []\<rparr>) \<and>
   member_of (member_of stateless_observation ''sys'') ''country'' = PNone \<and>
   extract_required_fields 0 \<lparr>observations = [stateless_observation], trace = []\<rparr> =
     (None, \<lparr>observations = [stateless_observation],
             trace = [Printed (MissingEssentialData 0)]\<rparr>) \<and>
   (\<exists>e. extract_required_fields 0 \<lparr>observations = [becalmed_observation], trace = []\<rparr> =
     (None, \<lparr>observations = [becalmed_observation], trace = [Printed (CouldntExtract e)]\<rparr>))"
proof -
  have st: "list_getitem [stateless_observation] 0 = Inr stateless_observation"
      "well_shaped stateless_observation"
      "utcfromtimestamp (member_of stateless_observation ''dt'') = Inr seattle_datetime"
      "member_of (member_of stateless_observation ''sys'') ''country'' = PNone"
    by (simp_all add: stateless_observation_def list_getitem_def utcfromtimestamp_def
        from_seconds_seattle)
  have six: "extract_required_fields 0 \<lparr>observations = [stateless_observation], trace = []\<rparr> =
     (None, \<lparr>observations = [stateless_observation],
             trace = [Printed (MissingEssentialData 0)]\<rparr>)"
    using nested_lookup_of_missing_key[of sparse_members "''wind''" "''speed''"
        "\<lparr>observations = [stateless_observation], trace = []\<rparr>" 0 stateless_observation
        seattle_datetime] st
    by (simp add: print_def)
  have sp: "list_getitem [PDict sparse_members] 0 = Inr (PDict sparse_members)"
      "well_shaped (PDict sparse_members)"
      "utcfromtimestamp (member_of (PDict sparse_members) ''dt'') = Inr seattle_datetime"
      "required_true (PDict sparse_members)"
      "map_of sparse_members ''wind'' = None" "map_of sparse_members ''weather'' = None"
      "map_of sparse_members ''main'' = Some (PDict [(''temp'', PFloat (Finite 15))])"
    by (simp_all add: sparse_members_def list_getitem_def utcfromtimestamp_def
        from_seconds_seattle required_true_def)
  have be: "list_getitem [becalmed_observation] 0 = Inr becalmed_observation"
      "\<not> well_shaped becalmed_observation"
    by (simp_all add: becalmed_observation_def list_getitem_def)
  have one: "get_nested (PDict sparse_members) ''wind'' ''speed'' = Inr PNone"
    using nested_lookup_of_missing_key[of sparse_members "''wind''" "''speed''"] sp by simp
  have two: "get_nested (PDict sparse_members) ''main'' ''humidity'' = Inr PNone"
    using nested_lookup_of_missing_key[of sparse_members "''main''" "''humidity''"] sp by simp
  have three: "get_weather0 (PDict sparse_members) ''description'' = Inr PNone"
    using nested_lookup_of_missing_key[of sparse_members _ "''description''"] sp by simp
  have four: "extract_required_fields 0 \<lparr>observations = [PDict sparse_members], trace = []\<rparr> =
     (Some (record_of (PDict sparse_members) (strftime seattle_datetime)),
      \<lparr>observations = [PDict sparse_members], trace = []\<rparr>)"
    using nested_lookup_of_missing_key[of sparse_members "''wind''" "''speed''"
        "\<lparr>observations = [PDict sparse_members], trace = []\<rparr>" 0 "PDict sparse_members"
        seattle_datetime] sp
    by simp
  have five: "\<exists>e. extract_required_fields 0 \<lparr>observations = [becalmed_observation], trace = []\<rparr> =
     (None, \<lparr>observations = [becalmed_observation], trace = [Printed (CouldntExtract e)]\<rparr>)"
    using nested_lookup_of_missing_key[of sparse_members "''wind''" "''speed''"
        "\<lparr>observations = [becalmed_observation], trace = []\<rparr>" 0 becalmed_observation
        seattle_datetime] be
    by (simp add: print_def)
  have rec: "record_of (PDict sparse_members) (strftime seattle_datetime) =
     \<lparr>city = PStr ''Seattle'', country = PStr ''US'', temp_celsius = PFloat (Finite 15),
      feels_like_celsius = PNone, weather_main = PNone, weather_desc = PNone,
      humidity = PNone, wind_speed = PNone, timestamp_utc = ''2023-11-14 22:13:20''\<rparr>"
    by (simp add: record_of_def sparse_members_def strftime_seattle)
  from one two three four five six st(4) rec show ?thesis by simp
qed

section \<open>Properties of the calendar conversion\<close>


























section \<open>The timestamp of a record\<close>








end
